theory Spec2Isabelle
  imports Main
begin

section \<open>The template language\<close>

text \<open>
  \<^verbatim>\<open>stack/assets.py\<close> builds its declarations from troposphere objects: string and
  boolean literals, lists, keyword-argument objects, and the helper functions
  \<^verbatim>\<open>Ref\<close>, \<^verbatim>\<open>GetAtt\<close>, \<^verbatim>\<open>Join\<close>, \<^verbatim>\<open>Split\<close>, \<^verbatim>\<open>If\<close> and \<^verbatim>\<open>Equals\<close>. An
  expression of the source is a value of \<open>cfn\<close>; a keyword-argument object keeps its
  arguments in the order the source writes them. \<^verbatim>\<open>If\<close> takes the name of a condition;
  it is \<open>If_cfn\<close> here, since \<open>If\<close> is HOL's conditional.
\<close>

datatype cfn =
    Str string
  | Bool bool
  | Lst "cfn list"
  | Obj "(string \<times> cfn) list"
  | Ref string
  | GetAtt string string
  | Join string cfn
  | Split string cfn
  | If_cfn string cfn cfn
  | Equals cfn cfn

text \<open>
  What an expression denotes once the parameters of a stack are given: a string, a
  boolean, a list, an object, or \<^verbatim>\<open>AWS::NoValue\<close>, which removes the property (or list
  entry) that holds it.
\<close>

datatype val =
    VStr string
  | VBool bool
  | VList "val list"
  | VObj "(string \<times> val) list"
  | NoValue

text \<open>
  The environment of an evaluation: \<open>refs\<close> resolves \<^verbatim>\<open>Ref\<close> on a parameter or a
  resource, \<open>atts\<close> resolves \<^verbatim>\<open>GetAtt\<close>, \<open>conds\<close> gives the truth value of each named
  condition.
\<close>

record env =
  refs :: "string \<rightharpoonup> val"
  atts :: "string \<Rightarrow> string \<rightharpoonup> val"
  conds :: "string \<rightharpoonup> bool"

subsection \<open>Join and Split on strings\<close>

fun join :: "string \<Rightarrow> string list \<Rightarrow> string" where
  "join d [] = []"
| "join d [x] = x"
| "join d (x # y # ys) = x @ d @ join d (y # ys)"

text \<open>
  \<open>split_str d acc s\<close> cuts \<open>s\<close> at every occurrence of the delimiter \<open>d\<close>, read from
  the left; \<open>acc\<close> is the piece being read. An empty delimiter cuts nowhere.
\<close>

function split_str :: "string \<Rightarrow> string \<Rightarrow> string \<Rightarrow> string list" where
  "split_str d acc [] = [acc]"
| "split_str d acc (c # cs) =
     (if d \<noteq> [] \<and> take (length d) (c # cs) = d
      then acc # split_str d [] (drop (length d) (c # cs))
      else split_str d (acc @ [c]) cs)"
  by pat_completeness auto
termination
  by (relation "measure (\<lambda>(d, acc, s). length s)") auto

fun strings :: "val list \<Rightarrow> string list option" where
  "strings [] = Some []"
| "strings (VStr s # vs) = map_option ((#) s) (strings vs)"
| "strings (_ # vs) = None"

subsection \<open>Evaluation\<close>

text \<open>
  An expression that cannot be evaluated (an unresolved reference, an unknown
  condition, \<^verbatim>\<open>Join\<close> over something that is not a list of strings, \<^verbatim>\<open>Split\<close> or
  \<^verbatim>\<open>Equals\<close> on something that is not a string) is \<open>None\<close>. \<^verbatim>\<open>If\<close> evaluates only
  the branch its condition selects.
\<close>

fun eval :: "env \<Rightarrow> cfn \<Rightarrow> val option"
  and evals :: "env \<Rightarrow> cfn list \<Rightarrow> val list option"
  and eval_props :: "env \<Rightarrow> (string \<times> cfn) list \<Rightarrow> (string \<times> val) list option"
where
  "eval E (Str s) = Some (VStr s)"
| "eval E (Bool b) = Some (VBool b)"
| "eval E (Lst xs) = map_option VList (evals E xs)"
| "eval E (Obj kvs) = map_option VObj (eval_props E kvs)"
| "eval E (Ref n) = (if n = ''AWS::NoValue'' then Some NoValue else refs E n)"
| "eval E (GetAtt n a) = atts E n a"
| "eval E (Join d x) =
     (case eval E x of
        Some (VList vs) \<Rightarrow> map_option (\<lambda>ss. VStr (join d ss)) (strings vs)
      | _ \<Rightarrow> None)"
| "eval E (Split d x) =
     (case eval E x of
        Some (VStr s) \<Rightarrow> Some (VList (map VStr (split_str d [] s)))
      | _ \<Rightarrow> None)"
| "eval E (If_cfn c t e) =
     (case conds E c of
        None \<Rightarrow> None
      | Some b \<Rightarrow> if b then eval E t else eval E e)"
| "eval E (Equals a b) =
     (case eval E a of
        Some (VStr x) \<Rightarrow>
          (case eval E b of Some (VStr y) \<Rightarrow> Some (VBool (x = y)) | _ \<Rightarrow> None)
      | _ \<Rightarrow> None)"
| "evals E [] = Some []"
| "evals E (x # xs) =
     (case eval E x of
        None \<Rightarrow> None
      | Some v \<Rightarrow>
          (case evals E xs of
             None \<Rightarrow> None
           | Some vs \<Rightarrow> Some (if v = NoValue then vs else v # vs)))"
| "eval_props E [] = Some []"
| "eval_props E ((k, x) # kvs) =
     (case eval E x of
        None \<Rightarrow> None
      | Some v \<Rightarrow>
          (case eval_props E kvs of
             None \<Rightarrow> None
           | Some kvs' \<Rightarrow> Some (if v = NoValue then kvs' else (k, v) # kvs')))"

text \<open>
  The conditions of a template are evaluated from the parameters alone, before any
  resource; a resource is then evaluated with the truth values so obtained.
\<close>

definition condition_value :: "env \<Rightarrow> cfn \<Rightarrow> bool option" where
  "condition_value E c = (case eval E c of Some (VBool b) \<Rightarrow> Some b | _ \<Rightarrow> None)"

definition property :: "string \<Rightarrow> val \<Rightarrow> val option" where
  "property k v = (case v of VObj kvs \<Rightarrow> map_of kvs k | _ \<Rightarrow> None)"

section \<open>Declarations\<close>

text \<open>
  The property classes of troposphere (\<^verbatim>\<open>VersioningConfiguration\<close>,
  \<^verbatim>\<open>DistributionConfig\<close>, ...) and Python's \<^verbatim>\<open>dict(...)\<close> hold keyword arguments
  and nothing else; the constants \<^verbatim>\<open>PublicRead\<close> and \<^verbatim>\<open>Private\<close> of
  \<^verbatim>\<open>troposphere.s3\<close> are the strings of the same spelling.
\<close>

abbreviation "VersioningConfiguration kw \<equiv> Obj kw"
abbreviation "CorsConfiguration kw \<equiv> Obj kw"
abbreviation "CorsRules kw \<equiv> Obj kw"
abbreviation "DistributionConfig kw \<equiv> Obj kw"
abbreviation "Origin kw \<equiv> Obj kw"
abbreviation "S3Origin kw \<equiv> Obj kw"
abbreviation "DefaultCacheBehavior kw \<equiv> Obj kw"
abbreviation "ForwardedValues kw \<equiv> Obj kw"
abbreviation "ViewerCertificate kw \<equiv> Obj kw"
abbreviation "Policy kw \<equiv> Obj kw"
abbreviation "dict kw \<equiv> Obj kw"
abbreviation "PublicRead \<equiv> Str ''PublicRead''"
abbreviation "Private \<equiv> Str ''Private''"

text \<open>
  A resource is a bucket or a distribution: its title and its keyword arguments.
  \<^verbatim>\<open>Ref(r)\<close> and \<^verbatim>\<open>GetAtt(r, a)\<close> on a declared object \<open>r\<close> name it by its title.
\<close>

datatype resource =
    is_Bucket: Bucket (title: string) (kwargs: "(string \<times> cfn) list")
  | is_Distribution: Distribution (title: string) (kwargs: "(string \<times> cfn) list")

datatype parameter =
  Parameter (p_title: string) (p_Description: string) (p_Type: string)

datatype template_output =
  Output (o_title: string) (o_Description: string) (o_Value: cfn)

text \<open>
  Modelled from the spec: the shared template accumulator of module \<^verbatim>\<open>.template\<close>,
  which is not among the sources. It exposes "add resource / add output / add
  parameter / add condition"; a registration always succeeds, and each declaration is
  appended to an ordered list. A condition is registered under a name, and the
  conditions of a template are a dictionary keyed by that name, so a registration
  under a name already taken replaces the condition held there.
\<close>

record template =
  resources :: "resource list"
  outputs :: "template_output list"
  parameters :: "parameter list"
  conditions :: "string \<rightharpoonup> cfn"

definition add_resource :: "resource \<Rightarrow> template \<Rightarrow> template" where
  "add_resource r t = t\<lparr>resources := resources t @ [r]\<rparr>"

definition add_output :: "template_output \<Rightarrow> template \<Rightarrow> template" where
  "add_output out t = t\<lparr>outputs := outputs t @ [out]\<rparr>"

definition add_parameter :: "parameter \<Rightarrow> template \<Rightarrow> template" where
  "add_parameter p t = t\<lparr>parameters := parameters t @ [p]\<rparr>"

definition add_condition :: "string \<Rightarrow> cfn \<Rightarrow> template \<Rightarrow> template" where
  "add_condition name c t = t\<lparr>conditions := (conditions t)(name \<mapsto> c)\<rparr>"

text \<open>
  The environment in which the resources of a template are evaluated, for given
  values of the references and attributes.
\<close>

definition stack_env :: "(string \<rightharpoonup> val) \<Rightarrow> (string \<Rightarrow> string \<rightharpoonup> val) \<Rightarrow> template \<Rightarrow> env" where
  "stack_env R A t =
     \<lparr>refs = R, atts = A,
      conds = (\<lambda>n. case conditions t n of
                      None \<Rightarrow> None
                    | Some c \<Rightarrow> condition_value \<lparr>refs = R, atts = A, conds = Map.empty\<rparr> c)\<rparr>"

text \<open>
  What \<^verbatim>\<open>stack/assets.py\<close> imports from the modules \<^verbatim>\<open>.common\<close> and \<^verbatim>\<open>.domain\<close>,
  which are not among the sources: the partition prefix of an ARN, the primary
  domain, the list of alternate domains, and the name of the condition "there are no
  alternate domains". They are parameters of everything below.
\<close>

record collaborators =
  arn_prefix :: cfn
  domain_name :: cfn
  domain_name_alternates :: cfn
  no_alt_domains :: string

section \<open>stack/assets.py\<close>

definition common_bucket_conf :: "collaborators \<Rightarrow> (string \<times> cfn) list" where
  "common_bucket_conf X =
     [(''VersioningConfiguration'', VersioningConfiguration [(''Status'', Str ''Enabled'')]),
      (''DeletionPolicy'', Str ''Retain''),
      (''CorsConfiguration'', CorsConfiguration
         [(''CorsRules'', Lst [CorsRules
            [(''AllowedOrigins'', Split '';'' (Join '''' (Lst
                [Str ''https://'', domain_name X,
                 If_cfn (no_alt_domains X) (Str '''') (Str '';https://''),
                 Join '';https://'' (domain_name_alternates X)]))),
             (''AllowedMethods'', Lst [Str ''POST'', Str ''PUT'', Str ''HEAD'', Str ''GET'']),
             (''AllowedHeaders'', Lst [Str ''*''])]])])]"

definition assets_bucket :: "collaborators \<Rightarrow> resource" where
  "assets_bucket X =
     Bucket ''AssetsBucket'' ((''AccessControl'', PublicRead) # common_bucket_conf X)"

definition private_assets_bucket :: "collaborators \<Rightarrow> resource" where
  "private_assets_bucket X =
     Bucket ''PrivateAssetsBucket'' ((''AccessControl'', Private) # common_bucket_conf X)"

definition assets_management_policy :: "collaborators \<Rightarrow> cfn" where
  "assets_management_policy X =
     Policy
       [(''PolicyName'', Str ''AssetsManagementPolicy''),
        (''PolicyDocument'', dict
           [(''Statement'', Lst
              [dict
                 [(''Effect'', Str ''Allow''),
                  (''Action'', Lst [Str ''s3:ListBucket'']),
                  (''Resource'', Join '''' (Lst
                     [arn_prefix X, Str '':s3:::'', Ref (title (assets_bucket X))]))],
               dict
                 [(''Effect'', Str ''Allow''),
                  (''Action'', Lst [Str ''s3:*'']),
                  (''Resource'', Join '''' (Lst
                     [arn_prefix X, Str '':s3:::'', Ref (title (assets_bucket X)), Str ''/*'']))],
               dict
                 [(''Effect'', Str ''Allow''),
                  (''Action'', Lst [Str ''s3:ListBucket'']),
                  (''Resource'', Join '''' (Lst
                     [arn_prefix X, Str '':s3:::'', Ref (title (private_assets_bucket X))]))],
               dict
                 [(''Effect'', Str ''Allow''),
                  (''Action'', Lst [Str ''s3:*'']),
                  (''Resource'', Join '''' (Lst
                     [arn_prefix X, Str '':s3:::'', Ref (title (private_assets_bucket X)),
                      Str ''/*'']))]])])]"

subsection \<open>The distributions\<close>

definition distribution_aliases_parameter :: parameter where
  "distribution_aliases_parameter =
     Parameter ''DistributionAliases''
       (''A comma-separated list of CNAMEs (alternate domain names), if any, for the '' @
        ''CloudFront distribution, e.g. static.mydomain.com'')
       ''CommaDelimitedList''"

definition distribution_aliases :: cfn where
  "distribution_aliases = Ref (p_title distribution_aliases_parameter)"

definition distribution :: "collaborators \<Rightarrow> resource" where
  "distribution X =
     Distribution ''AssetsDistribution''
       [(''DistributionConfig'', DistributionConfig
          [(''Aliases'', distribution_aliases),
           (''Origins'', Lst [Origin
              [(''Id'', Str ''Assets''),
               (''DomainName'', GetAtt (title (assets_bucket X)) ''DomainName''),
               (''S3OriginConfig'', S3Origin [(''OriginAccessIdentity'', Str '''')])]]),
           (''DefaultCacheBehavior'', DefaultCacheBehavior
              [(''TargetOriginId'', Str ''Assets''),
               (''ForwardedValues'', ForwardedValues
                  [(''QueryString'', Bool True),
                   (''Headers'', Lst
                      [Str ''Origin'',
                       Str ''Access-Control-Request-Headers'',
                       Str ''Access-Control-Request-Method''])]),
               (''ViewerProtocolPolicy'', Str ''allow-all'')]),
           (''Enabled'', Bool True)])]"

definition media_distribution_alias_parameter :: parameter where
  "media_distribution_alias_parameter =
     Parameter ''MediaDistributionAlias''
       (''Optional CNAME (alternate domain name) for the PrivateAssetsBucket's '' @
        ''CloudFront distribution, e.g. media.mydomain.com'')
       ''String''"

definition media_distribution_alias :: cfn where
  "media_distribution_alias = Ref (p_title media_distribution_alias_parameter)"

definition no_media_distribution_alias :: string where
  "no_media_distribution_alias = ''NoMediaDistributionAlias''"

definition media_acm_certificate_arn_parameter :: parameter where
  "media_acm_certificate_arn_parameter =
     Parameter ''MediaAcmCertificateArn''
       (''If you're using MediaDistributionAlias, enter the Amazon Resource Name (ARN) '' @
        ''of an AWS Certificate Manager (ACM) certificate from US East (N. Virginia).'')
       ''String''"

definition media_acm_certificate_arn :: cfn where
  "media_acm_certificate_arn = Ref (p_title media_acm_certificate_arn_parameter)"

definition no_media_acm_certificate_arn :: string where
  "no_media_acm_certificate_arn = ''NoMediaDistributionAlias''"

definition media_distribution :: "collaborators \<Rightarrow> resource" where
  "media_distribution X =
     Distribution ''MediaAssetsDistribution''
       [(''DistributionConfig'', DistributionConfig
          [(''Aliases'', If_cfn no_media_distribution_alias
                          (Ref ''AWS::NoValue'') (Lst [media_distribution_alias])),
           (''Origins'', Lst [Origin
              [(''Id'', Str ''Assets''),
               (''DomainName'', GetAtt (title (private_assets_bucket X)) ''DomainName''),
               (''S3OriginConfig'', S3Origin [(''OriginAccessIdentity'', Str '''')])]]),
           (''DefaultCacheBehavior'', DefaultCacheBehavior
              [(''TargetOriginId'', Str ''Assets''),
               (''ForwardedValues'', ForwardedValues
                  [(''QueryString'', Bool True),
                   (''Headers'', Lst
                      [Str ''Origin'',
                       Str ''Access-Control-Request-Headers'',
                       Str ''Access-Control-Request-Method''])]),
               (''ViewerProtocolPolicy'', Str ''allow-all'')]),
           (''Enabled'', Bool True),
           (''ViewerCertificate'', If_cfn no_media_acm_certificate_arn
                                    (Ref ''AWS::NoValue'')
                                    (ViewerCertificate
                                       [(''AcmCertificateArn'', media_acm_certificate_arn),
                                        (''SslSupportMethod'', Str ''sni-only'')]))])]"

subsection \<open>The module\<close>

text \<open>
  The module runs once, top to bottom, on the template it is given. \<open>USE_GOVCLOUD\<close> is
  \<^verbatim>\<open>os.environ.get('USE_GOVCLOUD')\<close>: \<open>None\<close> when the variable is not set. What the
  module leaves behind is the template, the policy and the variable
  \<^verbatim>\<open>distribution\<close>, which is \<^verbatim>\<open>None\<close> on the \<^verbatim>\<open>else\<close> branch.
\<close>

record assets_module =
  m_template :: template
  m_assets_management_policy :: cfn
  m_distribution :: "resource option"

definition assets :: "string option \<Rightarrow> collaborators \<Rightarrow> template \<Rightarrow> assets_module" where
  "assets USE_GOVCLOUD X template0 =
     (let t = add_resource (assets_bucket X) template0;
          t = add_output
                (Output ''AssetsBucketDomainName'' ''Assets bucket domain name''
                   (GetAtt (title (assets_bucket X)) ''DomainName'')) t;
          t = add_resource (private_assets_bucket X) t;
          t = add_output
                (Output ''PrivateAssetsBucketDomainName'' ''Private assets bucket domain name''
                   (GetAtt (title (private_assets_bucket X)) ''DomainName'')) t
      in if USE_GOVCLOUD \<noteq> Some ''on'' then
           (let t = add_parameter distribution_aliases_parameter t;
                t = add_resource (distribution X) t;
                t = add_parameter media_distribution_alias_parameter t;
                t = add_condition no_media_distribution_alias
                      (Equals media_distribution_alias (Str '''')) t;
                t = add_parameter media_acm_certificate_arn_parameter t;
                t = add_condition no_media_acm_certificate_arn
                      (Equals media_acm_certificate_arn (Str '''')) t;
                t = add_resource (media_distribution X) t;
                t = add_output
                      (Output ''AssetsDistributionDomainName'' ''The assest CDN domain name''
                         (GetAtt (title (distribution X)) ''DomainName'')) t
            in \<lparr>m_template = t,
                m_assets_management_policy = assets_management_policy X,
                m_distribution = Some (distribution X)\<rparr>)
         else
           \<lparr>m_template = t,
            m_assets_management_policy = assets_management_policy X,
            m_distribution = None\<rparr>)"


section \<open>Reading a declaration\<close>

text \<open>
  \<open>get k x\<close> is the keyword argument \<open>k\<close> of an object as the source wrote it;
  \<open>property k v\<close> above is the property \<open>k\<close> of an evaluated object. A resource is
  evaluated as the object of its keyword arguments.
\<close>

definition get :: "string \<Rightarrow> cfn \<Rightarrow> cfn option" where
  "get k x = (case x of Obj kw \<Rightarrow> map_of kw k | _ \<Rightarrow> None)"

definition eval_resource :: "env \<Rightarrow> resource \<Rightarrow> val option" where
  "eval_resource E r = map_option VObj (eval_props E (kwargs r))"

text \<open>The allowed origins of the one CORS rule of an evaluated bucket.\<close>

definition allowed_origins :: "env \<Rightarrow> resource \<Rightarrow> val option" where
  "allowed_origins E r =
     Option.bind (eval_resource E r) (\<lambda>b.
     Option.bind (property ''CorsConfiguration'' b) (\<lambda>c.
     Option.bind (property ''CorsRules'' c) (\<lambda>rs.
       case rs of VList [rule] \<Rightarrow> property ''AllowedOrigins'' rule | _ \<Rightarrow> None)))"

text \<open>
  The string that the \<^verbatim>\<open>Join\<close> of \<^verbatim>\<open>common_bucket_conf\<close> denotes for a primary domain
  \<open>d\<close> and alternates \<open>alts\<close>, when the condition holds exactly if there is no alternate.
\<close>

definition origins_string :: "string \<Rightarrow> string list \<Rightarrow> string" where
  "origins_string d alts =
     join [] [''https://'', d, if alts = [] then [] else '';https://'', join '';https://'' alts]"

text \<open>The \<^verbatim>\<open>DistributionConfig\<close> of a distribution: as written, and evaluated.\<close>

definition config :: "resource \<Rightarrow> cfn option" where
  "config r = map_of (kwargs r) ''DistributionConfig''"

definition distribution_config :: "env \<Rightarrow> resource \<Rightarrow> val option" where
  "distribution_config E r = Option.bind (eval_resource E r) (property ''DistributionConfig'')"

text \<open>How many properties of an evaluated object go by the name \<open>k\<close>.\<close>

definition count_property :: "string \<Rightarrow> val \<Rightarrow> nat" where
  "count_property k v = (case v of VObj kvs \<Rightarrow> length (filter (\<lambda>kv. fst kv = k) kvs) | _ \<Rightarrow> 0)"

subsection \<open>Sample inputs\<close>

text \<open>
  Concrete collaborators, an empty template and environments, on which the theorems
  below are instantiated.
\<close>

definition sample_collaborators :: collaborators where
  "sample_collaborators =
     \<lparr>arn_prefix = Str ''arn:aws'',
      domain_name = Ref ''DomainName'',
      domain_name_alternates = Ref ''DomainNameAlternates'',
      no_alt_domains = ''NoAlternateDomains''\<rparr>"

definition domain_env :: "string \<Rightarrow> string list \<Rightarrow> env" where
  "domain_env d alts =
     \<lparr>refs = [''DomainName'' \<mapsto> VStr d, ''DomainNameAlternates'' \<mapsto> VList (map VStr alts)],
      atts = (\<lambda>_. Map.empty),
      conds = [''NoAlternateDomains'' \<mapsto> (alts = [])]\<rparr>"

definition empty_template :: template where
  "empty_template = \<lparr>resources = [], outputs = [], parameters = [], conditions = Map.empty\<rparr>"

text \<open>
  Values for the references and attributes of a stack: the names of the two buckets,
  the aliases of the primary distribution, and the two parameters of the secondary
  distribution, \<open>alias\<close> and \<open>arn\<close>.
\<close>

definition sample_refs :: "string \<Rightarrow> string \<Rightarrow> string \<rightharpoonup> val" where
  "sample_refs alias arn =
     [''AssetsBucket'' \<mapsto> VStr ''assets-1'',
      ''PrivateAssetsBucket'' \<mapsto> VStr ''private-1'',
      ''DistributionAliases'' \<mapsto> VList [VStr ''static.mydomain.com''],
      ''MediaDistributionAlias'' \<mapsto> VStr alias,
      ''MediaAcmCertificateArn'' \<mapsto> VStr arn]"

definition sample_atts :: "string \<Rightarrow> string \<rightharpoonup> val" where
  "sample_atts n a = (if a = ''DomainName'' then Some (VStr (n @ ''.s3.amazonaws.com'')) else None)"

section \<open>Join and Split\<close>

lemma join_Cons: "join d (x # xs) = x @ concat (map (\<lambda>y. d @ y) xs)"
  by (induction xs arbitrary: x) auto

lemma split_str_no_delim:
  "c \<notin> set s \<Longrightarrow> split_str [c] acc s = [acc @ s]"
  by (induction s arbitrary: acc) auto

lemma split_str_at_delim:
  "c \<notin> set s \<Longrightarrow> split_str [c] acc (s @ c # rest) = (acc @ s) # split_str [c] [] rest"
  by (induction s arbitrary: acc) auto

text \<open>
  A string made of pieces free of the delimiter \<open>c\<close>, each piece after the first
  introduced by \<open>c\<close> and a prefix \<open>q\<close>, splits into those pieces.
\<close>

lemma split_str_pieces:
  "c \<notin> set p \<Longrightarrow> c \<notin> set q \<Longrightarrow> \<forall>a \<in> set as. c \<notin> set a \<Longrightarrow>
   split_str [c] acc (p @ concat (map (\<lambda>a. c # q @ a) as)) = (acc @ p) # map (\<lambda>a. q @ a) as"
proof (induction as arbitrary: acc p)
  case Nil
  then show ?case by (simp add: split_str_no_delim)
next
  case (Cons a as)
  let ?rest = "concat (map (\<lambda>a. c # q @ a) as)"
  have "split_str [c] acc (p @ concat (map (\<lambda>a. c # q @ a) (a # as)))
      = split_str [c] acc (p @ c # ((q @ a) @ ?rest))"
    by simp
  also have "\<dots> = (acc @ p) # split_str [c] [] ((q @ a) @ ?rest)"
    using Cons.prems(1) by (rule split_str_at_delim)
  also have "split_str [c] [] ((q @ a) @ ?rest) = ([] @ (q @ a)) # map (\<lambda>a. q @ a) as"
    using Cons.prems by (intro Cons.IH) auto
  finally show ?case by simp
qed

lemma strings_map_VStr: "strings (map VStr ss) = Some ss"
  by (induction ss) auto

lemma origins_string_eq:
  "origins_string d alts =
     (''https://'' @ d) @ concat (map (\<lambda>a. CHR '';'' # ''https://'' @ a) alts)"
  by (cases alts) (simp_all add: origins_string_def join_Cons)

lemma split_origins_string:
  assumes "CHR '';'' \<notin> set d" "\<forall>a \<in> set alts. CHR '';'' \<notin> set a"
  shows "split_str '';'' [] (origins_string d alts) =
           (''https://'' @ d) # map (\<lambda>a. ''https://'' @ a) alts"
proof -
  have "split_str [CHR '';''] []
          ((''https://'' @ d) @ concat (map (\<lambda>a. CHR '';'' # ''https://'' @ a) alts))
      = ([] @ (''https://'' @ d)) # map (\<lambda>a. ''https://'' @ a) alts"
    using assms by (intro split_str_pieces) auto
  then show ?thesis by (simp add: origins_string_eq)
qed

section \<open>The buckets\<close>

lemma eval_common_bucket_conf:
  assumes "eval E (domain_name X) = Some (VStr d)"
    and "eval E (domain_name_alternates X) = Some (VList (map VStr alts))"
    and "conds E (no_alt_domains X) = Some (alts = [])"
  shows "eval_props E (common_bucket_conf X) = Some
     [(''VersioningConfiguration'', VObj [(''Status'', VStr ''Enabled'')]),
      (''DeletionPolicy'', VStr ''Retain''),
      (''CorsConfiguration'', VObj
         [(''CorsRules'', VList [VObj
            [(''AllowedOrigins'', VList (map VStr (split_str '';'' [] (origins_string d alts)))),
             (''AllowedMethods'', VList [VStr ''POST'', VStr ''PUT'', VStr ''HEAD'', VStr ''GET'']),
             (''AllowedHeaders'', VList [VStr ''*''])]])])]"
  using assms by (simp add: common_bucket_conf_def strings_map_VStr origins_string_def)

text \<open>
  C1 (as amended). Let the primary domain evaluate to \<open>d\<close>, the alternates to
  \<open>[a1, ..., an]\<close>, and let the condition "no alternate domains" hold exactly when
  \<open>n = 0\<close>. If neither \<open>d\<close> nor any alternate contains the separator \<open>;\<close>, the allowed
  origins of both buckets are \<open>["https://" + d, "https://" + a1, ..., "https://" + an]\<close>;
  for \<open>n = 0\<close> that is the one entry \<open>"https://" + d\<close>.
\<close>

theorem cors_allowed_origins:
  assumes "eval E (domain_name X) = Some (VStr d)"
    and "eval E (domain_name_alternates X) = Some (VList (map VStr alts))"
    and "conds E (no_alt_domains X) = Some (alts = [])"
    and "CHR '';'' \<notin> set d"
    and "\<forall>a \<in> set alts. CHR '';'' \<notin> set a"
  shows "allowed_origins E (assets_bucket X) =
           Some (VList (map VStr ((''https://'' @ d) # map (\<lambda>a. ''https://'' @ a) alts)))
       \<and> allowed_origins E (private_assets_bucket X) =
           Some (VList (map VStr ((''https://'' @ d) # map (\<lambda>a. ''https://'' @ a) alts)))"
proof -
  note conf = eval_common_bucket_conf [OF assms(1-3)]
  note split = split_origins_string [OF assms(4,5)]
  show ?thesis
    by (simp add: allowed_origins_def eval_resource_def property_def
        assets_bucket_def private_assets_bucket_def conf split)
qed

text \<open>
  The two examples of the specification: \<open>example.com\<close> with the alternates
  \<open>alt1.com\<close> and \<open>alt2.com\<close>, and \<open>example.com\<close> alone.
\<close>

theorem cors_allowed_origins_witness:
  "allowed_origins (domain_env ''example.com'' [''alt1.com'', ''alt2.com''])
     (assets_bucket sample_collaborators) =
     Some (VList [VStr ''https://example.com'', VStr ''https://alt1.com'', VStr ''https://alt2.com''])
   \<and> allowed_origins (domain_env ''example.com'' []) (assets_bucket sample_collaborators) =
     Some (VList [VStr ''https://example.com''])"
  using cors_allowed_origins [of "domain_env ''example.com'' [''alt1.com'', ''alt2.com'']"
      sample_collaborators "''example.com''" "[''alt1.com'', ''alt2.com'']"]
    cors_allowed_origins [of "domain_env ''example.com'' []"
      sample_collaborators "''example.com''" "[]"]
  by (simp add: domain_env_def sample_collaborators_def)

text \<open>
  C1 as stated, for every \<open>d\<close>, fails on a string that holds the separator: the
  primary domain \<open>a;b\<close> with no alternate gives two origins, \<open>https://a\<close> and \<open>b\<close>.
\<close>

theorem cors_allowed_origins_counterexample:
  "allowed_origins (domain_env ''a;b'' []) (assets_bucket sample_collaborators) =
     Some (VList [VStr ''https://a'', VStr ''b''])
   \<and> allowed_origins (domain_env ''a;b'' []) (assets_bucket sample_collaborators) \<noteq>
     Some (VList (map VStr ((''https://'' @ ''a;b'') # map (\<lambda>a. ''https://'' @ a) [])))"
  by (simp add: allowed_origins_def eval_resource_def property_def assets_bucket_def
      common_bucket_conf_def domain_env_def sample_collaborators_def)

section \<open>What the module registers\<close>

lemma template_on:
  "m_template (assets (Some ''on'') X t0) =
     t0\<lparr>resources := resources t0 @ [assets_bucket X, private_assets_bucket X],
        outputs := outputs t0 @
          [Output ''AssetsBucketDomainName'' ''Assets bucket domain name''
             (GetAtt (title (assets_bucket X)) ''DomainName''),
           Output ''PrivateAssetsBucketDomainName'' ''Private assets bucket domain name''
             (GetAtt (title (private_assets_bucket X)) ''DomainName'')]\<rparr>"
  by (simp add: assets_def add_resource_def add_output_def)

lemma template_off:
  "v \<noteq> Some ''on'' \<Longrightarrow> m_template (assets v X t0) =
     t0\<lparr>resources := resources t0 @
          [assets_bucket X, private_assets_bucket X, distribution X, media_distribution X],
        outputs := outputs t0 @
          [Output ''AssetsBucketDomainName'' ''Assets bucket domain name''
             (GetAtt (title (assets_bucket X)) ''DomainName''),
           Output ''PrivateAssetsBucketDomainName'' ''Private assets bucket domain name''
             (GetAtt (title (private_assets_bucket X)) ''DomainName''),
           Output ''AssetsDistributionDomainName'' ''The assest CDN domain name''
             (GetAtt (title (distribution X)) ''DomainName'')],
        parameters := parameters t0 @
          [distribution_aliases_parameter, media_distribution_alias_parameter,
           media_acm_certificate_arn_parameter],
        conditions := (conditions t0)(''NoMediaDistributionAlias'' \<mapsto>
           Equals media_acm_certificate_arn (Str ''''))\<rparr>"
  by (simp add: assets_def Let_def add_resource_def add_output_def add_parameter_def
      add_condition_def no_media_distribution_alias_def no_media_acm_certificate_arn_def)

text \<open>
  C9. Whatever the flag, the module registers exactly two buckets. The first has
  public-read access control, the second private; apart from that keyword argument the
  two declarations have the same arguments, those of \<^verbatim>\<open>common_bucket_conf\<close>:
  versioning status \<open>Enabled\<close>, deletion policy \<open>Retain\<close>, and the same CORS
  configuration.
\<close>

theorem bucket_declarations:
  "filter is_Bucket (resources (m_template (assets v X t0))) =
     filter is_Bucket (resources t0) @ [assets_bucket X, private_assets_bucket X]
   \<and> map_of (kwargs (assets_bucket X)) ''AccessControl'' = Some PublicRead
   \<and> map_of (kwargs (private_assets_bucket X)) ''AccessControl'' = Some Private
   \<and> PublicRead \<noteq> Private
   \<and> filter (\<lambda>kv. fst kv \<noteq> ''AccessControl'') (kwargs (assets_bucket X)) =
       filter (\<lambda>kv. fst kv \<noteq> ''AccessControl'') (kwargs (private_assets_bucket X))
   \<and> map_of (kwargs (assets_bucket X)) ''VersioningConfiguration'' =
       Some (VersioningConfiguration [(''Status'', Str ''Enabled'')])
   \<and> map_of (kwargs (private_assets_bucket X)) ''VersioningConfiguration'' =
       Some (VersioningConfiguration [(''Status'', Str ''Enabled'')])
   \<and> map_of (kwargs (assets_bucket X)) ''DeletionPolicy'' = Some (Str ''Retain'')
   \<and> map_of (kwargs (private_assets_bucket X)) ''DeletionPolicy'' = Some (Str ''Retain'')
   \<and> map_of (kwargs (assets_bucket X)) ''CorsConfiguration'' =
       map_of (common_bucket_conf X) ''CorsConfiguration''
   \<and> map_of (kwargs (private_assets_bucket X)) ''CorsConfiguration'' =
       map_of (common_bucket_conf X) ''CorsConfiguration''
   \<and> map_of (common_bucket_conf X) ''CorsConfiguration'' \<noteq> None"
proof -
  have new: "filter is_Bucket (resources (m_template (assets v X t0))) =
     filter is_Bucket (resources t0) @ [assets_bucket X, private_assets_bucket X]"
  proof (cases "v = Some ''on''")
    case True
    then show ?thesis
      by (simp add: template_on assets_bucket_def private_assets_bucket_def)
  next
    case False
    then show ?thesis
      by (simp add: template_off assets_bucket_def private_assets_bucket_def
          distribution_def media_distribution_def)
  qed
  show ?thesis
    by (simp add: new) (simp add: assets_bucket_def private_assets_bucket_def common_bucket_conf_def)
qed

section \<open>The access policy\<close>

text \<open>
  C2. With the partition prefix \<open>p\<close> and the bucket names \<open>b1\<close> and \<open>b2\<close>, the policy
  document holds exactly four statements, all of effect \<open>Allow\<close>: for each bucket one
  with action \<open>s3:ListBucket\<close> on \<open>p:s3:::b\<close>, and one with action \<open>s3:*\<close> on
  \<open>p:s3:::b/*\<close>.
\<close>

theorem access_policy:
  assumes "eval E (arn_prefix X) = Some (VStr p)"
    and "refs E (title (assets_bucket X)) = Some (VStr b1)"
    and "refs E (title (private_assets_bucket X)) = Some (VStr b2)"
  shows "eval E (assets_management_policy X) = Some (VObj
     [(''PolicyName'', VStr ''AssetsManagementPolicy''),
      (''PolicyDocument'', VObj
         [(''Statement'', VList
            [VObj [(''Effect'', VStr ''Allow''),
                   (''Action'', VList [VStr ''s3:ListBucket'']),
                   (''Resource'', VStr (p @ '':s3:::'' @ b1))],
             VObj [(''Effect'', VStr ''Allow''),
                   (''Action'', VList [VStr ''s3:*'']),
                   (''Resource'', VStr (p @ '':s3:::'' @ b1 @ ''/*''))],
             VObj [(''Effect'', VStr ''Allow''),
                   (''Action'', VList [VStr ''s3:ListBucket'']),
                   (''Resource'', VStr (p @ '':s3:::'' @ b2))],
             VObj [(''Effect'', VStr ''Allow''),
                   (''Action'', VList [VStr ''s3:*'']),
                   (''Resource'', VStr (p @ '':s3:::'' @ b2 @ ''/*''))]])])])"
  using assms
  by (simp add: assets_management_policy_def assets_bucket_def private_assets_bucket_def)

theorem access_policy_witness:
  "eval (stack_env (sample_refs [] []) sample_atts empty_template)
     (assets_management_policy sample_collaborators) = Some (VObj
     [(''PolicyName'', VStr ''AssetsManagementPolicy''),
      (''PolicyDocument'', VObj
         [(''Statement'', VList
            [VObj [(''Effect'', VStr ''Allow''),
                   (''Action'', VList [VStr ''s3:ListBucket'']),
                   (''Resource'', VStr ''arn:aws:s3:::assets-1'')],
             VObj [(''Effect'', VStr ''Allow''),
                   (''Action'', VList [VStr ''s3:*'']),
                   (''Resource'', VStr ''arn:aws:s3:::assets-1/*'')],
             VObj [(''Effect'', VStr ''Allow''),
                   (''Action'', VList [VStr ''s3:ListBucket'']),
                   (''Resource'', VStr ''arn:aws:s3:::private-1'')],
             VObj [(''Effect'', VStr ''Allow''),
                   (''Action'', VList [VStr ''s3:*'']),
                   (''Resource'', VStr ''arn:aws:s3:::private-1/*'')]])])])"
  using access_policy [of "stack_env (sample_refs [] []) sample_atts empty_template"
      sample_collaborators "''arn:aws''" "''assets-1''" "''private-1''"]
  by (simp add: stack_env_def sample_refs_def sample_collaborators_def
      assets_bucket_def private_assets_bucket_def)

section \<open>The government-cloud gate\<close>

text \<open>
  C3. When \<^verbatim>\<open>USE_GOVCLOUD\<close> is \<open>on\<close>, the module adds no parameter and no condition,
  no resource but the two buckets and no output but the two bucket outputs; the
  variable \<^verbatim>\<open>distribution\<close> is \<^verbatim>\<open>None\<close>, and the policy is built all the same.
\<close>

theorem govcloud_on:
  "resources (m_template (assets (Some ''on'') X t0)) =
     resources t0 @ [assets_bucket X, private_assets_bucket X]
   \<and> parameters (m_template (assets (Some ''on'') X t0)) = parameters t0
   \<and> conditions (m_template (assets (Some ''on'') X t0)) = conditions t0
   \<and> outputs (m_template (assets (Some ''on'') X t0)) =
       outputs t0 @
         [Output ''AssetsBucketDomainName'' ''Assets bucket domain name''
            (GetAtt ''AssetsBucket'' ''DomainName''),
          Output ''PrivateAssetsBucketDomainName'' ''Private assets bucket domain name''
            (GetAtt ''PrivateAssetsBucket'' ''DomainName'')]
   \<and> m_distribution (assets (Some ''on'') X t0) = None
   \<and> m_assets_management_policy (assets (Some ''on'') X t0) = assets_management_policy X
   \<and> is_Bucket (assets_bucket X) \<and> is_Bucket (private_assets_bucket X)"
  by (simp add: template_on) (simp add: assets_def assets_bucket_def private_assets_bucket_def)

text \<open>
  C10. The gate is equality with the string \<open>on\<close>. The distributions, their
  parameters, their condition and the output of the distribution's domain name are left
  out exactly when the variable is \<open>on\<close>; for any other value, and when the variable is
  not set, all of them are produced.
\<close>

theorem govcloud_gate:
  "(m_distribution (assets v X t0) = None) = (v = Some ''on'')
   \<and> (v = Some ''on'' \<longrightarrow>
        resources (m_template (assets v X t0)) =
          resources t0 @ [assets_bucket X, private_assets_bucket X]
      \<and> parameters (m_template (assets v X t0)) = parameters t0
      \<and> conditions (m_template (assets v X t0)) = conditions t0
      \<and> map o_title (outputs (m_template (assets v X t0))) =
          map o_title (outputs t0) @ [''AssetsBucketDomainName'', ''PrivateAssetsBucketDomainName''])
   \<and> (v \<noteq> Some ''on'' \<longrightarrow>
        resources (m_template (assets v X t0)) =
          resources t0 @
            [assets_bucket X, private_assets_bucket X, distribution X, media_distribution X]
      \<and> parameters (m_template (assets v X t0)) =
          parameters t0 @
            [distribution_aliases_parameter, media_distribution_alias_parameter,
             media_acm_certificate_arn_parameter]
      \<and> conditions (m_template (assets v X t0)) =
          (conditions t0)(''NoMediaDistributionAlias'' \<mapsto>
             Equals (Ref ''MediaAcmCertificateArn'') (Str ''''))
      \<and> map o_title (outputs (m_template (assets v X t0))) =
          map o_title (outputs t0) @
            [''AssetsBucketDomainName'', ''PrivateAssetsBucketDomainName'',
             ''AssetsDistributionDomainName'']
      \<and> m_distribution (assets v X t0) = Some (distribution X))"
proof (cases "v = Some ''on''")
  case True
  then show ?thesis
    by (simp add: template_on) (simp add: assets_def)
next
  case False
  then show ?thesis
    by (simp add: template_off media_acm_certificate_arn_def
        media_acm_certificate_arn_parameter_def) (simp add: assets_def Let_def)
qed

text \<open>The values \<open>ON\<close>, \<open>true\<close> and \<open>1\<close>, the variable not set, and \<open>on\<close>.\<close>

theorem govcloud_gate_witness:
  "Some ''ON'' \<noteq> Some ''on'' \<and> Some ''true'' \<noteq> Some ''on'' \<and> Some ''1'' \<noteq> Some ''on''
   \<and> None \<noteq> Some ''on''
   \<and> map title (resources (m_template (assets (Some ''ON'') sample_collaborators empty_template))) =
        [''AssetsBucket'', ''PrivateAssetsBucket'', ''AssetsDistribution'', ''MediaAssetsDistribution'']
   \<and> map title (resources (m_template (assets (Some ''true'') sample_collaborators empty_template))) =
        [''AssetsBucket'', ''PrivateAssetsBucket'', ''AssetsDistribution'', ''MediaAssetsDistribution'']
   \<and> map title (resources (m_template (assets (Some ''1'') sample_collaborators empty_template))) =
        [''AssetsBucket'', ''PrivateAssetsBucket'', ''AssetsDistribution'', ''MediaAssetsDistribution'']
   \<and> map title (resources (m_template (assets None sample_collaborators empty_template))) =
        [''AssetsBucket'', ''PrivateAssetsBucket'', ''AssetsDistribution'', ''MediaAssetsDistribution'']
   \<and> map title (resources (m_template (assets (Some ''on'') sample_collaborators empty_template))) =
        [''AssetsBucket'', ''PrivateAssetsBucket'']"
  using govcloud_gate [of "Some ''ON''" sample_collaborators empty_template]
    govcloud_gate [of "Some ''true''" sample_collaborators empty_template]
    govcloud_gate [of "Some ''1''" sample_collaborators empty_template]
    govcloud_gate [of None sample_collaborators empty_template]
    govcloud_gate [of "Some ''on''" sample_collaborators empty_template]
  by (simp add: empty_template_def assets_bucket_def private_assets_bucket_def
      distribution_def media_distribution_def)

section \<open>The distributions\<close>

text \<open>
  C7 (as amended). When the flag is off, the module declares exactly three parameters
  (the comma-delimited list of aliases of the primary distribution, the alias string
  of the secondary one, and the certificate ARN string of the secondary one) and
  exactly two distributions.
\<close>

theorem distribution_declarations:
  assumes "v \<noteq> Some ''on''"
  shows "parameters (m_template (assets v X t0)) =
           parameters t0 @
             [Parameter ''DistributionAliases''
                (p_Description distribution_aliases_parameter) ''CommaDelimitedList'',
              Parameter ''MediaDistributionAlias''
                (p_Description media_distribution_alias_parameter) ''String'',
              Parameter ''MediaAcmCertificateArn''
                (p_Description media_acm_certificate_arn_parameter) ''String'']
       \<and> filter is_Distribution (resources (m_template (assets v X t0))) =
           filter is_Distribution (resources t0) @ [distribution X, media_distribution X]"
  using assms
  by (simp add: template_off distribution_aliases_parameter_def
      media_distribution_alias_parameter_def media_acm_certificate_arn_parameter_def
      assets_bucket_def private_assets_bucket_def distribution_def media_distribution_def)

theorem distribution_declarations_witness:
  "None \<noteq> Some ''on''
   \<and> map p_title (parameters (m_template (assets None sample_collaborators empty_template))) =
        [''DistributionAliases'', ''MediaDistributionAlias'', ''MediaAcmCertificateArn'']
   \<and> map title (filter is_Distribution
        (resources (m_template (assets None sample_collaborators empty_template)))) =
        [''AssetsDistribution'', ''MediaAssetsDistribution'']"
  using distribution_declarations [of None sample_collaborators empty_template]
  by (simp add: empty_template_def distribution_def media_distribution_def)

text \<open>
  C7 as stated fails: on an empty template, with the variable not set, the module
  declares three parameters, not two.
\<close>

theorem distribution_declarations_counterexample:
  "length (parameters (m_template (assets None sample_collaborators empty_template))) = 3
   \<and> length (parameters (m_template (assets None sample_collaborators empty_template))) \<noteq> 2"
  by (simp add: template_off empty_template_def)

text \<open>
  C8. When the flag is off the two distributions are registered. Each has a single
  origin, whose domain name is the \<^verbatim>\<open>DomainName\<close> attribute of its own bucket, and the
  same default cache behaviour: query strings are forwarded, the forwarded headers are
  \<open>Origin\<close>, \<open>Access-Control-Request-Headers\<close> and \<open>Access-Control-Request-Method\<close>,
  and the viewer protocol policy is \<open>allow-all\<close>.
\<close>

theorem distribution_origin_and_cache:
  assumes "v \<noteq> Some ''on''"
  shows "filter is_Distribution (resources (m_template (assets v X t0))) =
           filter is_Distribution (resources t0) @ [distribution X, media_distribution X]
       \<and> Option.bind (config (distribution X)) (get ''Origins'') =
           Some (Lst [Origin
              [(''Id'', Str ''Assets''),
               (''DomainName'', GetAtt (title (assets_bucket X)) ''DomainName''),
               (''S3OriginConfig'', S3Origin [(''OriginAccessIdentity'', Str '''')])]])
       \<and> Option.bind (config (media_distribution X)) (get ''Origins'') =
           Some (Lst [Origin
              [(''Id'', Str ''Assets''),
               (''DomainName'', GetAtt (title (private_assets_bucket X)) ''DomainName''),
               (''S3OriginConfig'', S3Origin [(''OriginAccessIdentity'', Str '''')])]])
       \<and> Option.bind (config (distribution X)) (get ''DefaultCacheBehavior'') =
           Some (DefaultCacheBehavior
              [(''TargetOriginId'', Str ''Assets''),
               (''ForwardedValues'', ForwardedValues
                  [(''QueryString'', Bool True),
                   (''Headers'', Lst
                      [Str ''Origin'',
                       Str ''Access-Control-Request-Headers'',
                       Str ''Access-Control-Request-Method''])]),
               (''ViewerProtocolPolicy'', Str ''allow-all'')])
       \<and> Option.bind (config (media_distribution X)) (get ''DefaultCacheBehavior'') =
           Option.bind (config (distribution X)) (get ''DefaultCacheBehavior'')"
  using assms
  by (simp add: template_off config_def get_def distribution_def media_distribution_def
      assets_bucket_def private_assets_bucket_def)

theorem distribution_origin_and_cache_witness:
  "None \<noteq> Some ''on''
   \<and> map title (filter is_Distribution
        (resources (m_template (assets None sample_collaborators empty_template)))) =
        [''AssetsDistribution'', ''MediaAssetsDistribution'']
   \<and> Option.bind (config (media_distribution sample_collaborators)) (get ''Origins'') =
       Some (Lst [Origin
          [(''Id'', Str ''Assets''),
           (''DomainName'', GetAtt ''PrivateAssetsBucket'' ''DomainName''),
           (''S3OriginConfig'', S3Origin [(''OriginAccessIdentity'', Str '''')])]])"
  using distribution_origin_and_cache [of None sample_collaborators empty_template]
  by (simp add: empty_template_def distribution_def media_distribution_def
      private_assets_bucket_def)

subsection \<open>The condition of the secondary distribution\<close>

text \<open>
  C6. Both condition names of the source are the literal \<open>NoMediaDistributionAlias\<close>.
  After the module has run, the template holds under that name the condition
  registered last, "the certificate ARN is empty", and not the test on the alias; the
  \<^verbatim>\<open>If\<close> around the aliases and the \<^verbatim>\<open>If\<close> around the viewer certificate of the
  secondary distribution both name that condition.
\<close>

theorem shared_condition_name:
  assumes "v \<noteq> Some ''on''"
  shows "no_media_distribution_alias = ''NoMediaDistributionAlias''
       \<and> no_media_acm_certificate_arn = ''NoMediaDistributionAlias''
       \<and> conditions (m_template (assets v X t0)) =
           (conditions t0)(''NoMediaDistributionAlias'' \<mapsto>
              Equals (Ref ''MediaAcmCertificateArn'') (Str ''''))
       \<and> conditions (m_template (assets v X t0)) ''NoMediaDistributionAlias'' \<noteq>
           Some (Equals (Ref ''MediaDistributionAlias'') (Str ''''))
       \<and> Option.bind (config (media_distribution X)) (get ''Aliases'') =
           Some (If_cfn ''NoMediaDistributionAlias'' (Ref ''AWS::NoValue'')
                   (Lst [Ref ''MediaDistributionAlias'']))
       \<and> Option.bind (config (media_distribution X)) (get ''ViewerCertificate'') =
           Some (If_cfn ''NoMediaDistributionAlias'' (Ref ''AWS::NoValue'')
                   (ViewerCertificate
                      [(''AcmCertificateArn'', Ref ''MediaAcmCertificateArn''),
                       (''SslSupportMethod'', Str ''sni-only'')]))"
  using assms
  by (simp add: template_off config_def get_def media_distribution_def
      no_media_distribution_alias_def no_media_acm_certificate_arn_def
      media_distribution_alias_def media_distribution_alias_parameter_def
      media_acm_certificate_arn_def media_acm_certificate_arn_parameter_def)

theorem shared_condition_name_witness:
  "None \<noteq> Some ''on''
   \<and> conditions (m_template (assets None sample_collaborators empty_template)) =
       [''NoMediaDistributionAlias'' \<mapsto> Equals (Ref ''MediaAcmCertificateArn'') (Str '''')]"
  using shared_condition_name [of None sample_collaborators empty_template]
  by (simp add: empty_template_def)

lemma media_condition_value:
  assumes "v \<noteq> Some ''on''" and "R ''MediaAcmCertificateArn'' = Some (VStr arn)"
  shows "conds (stack_env R A (m_template (assets v X t0))) ''NoMediaDistributionAlias'' =
           Some (arn = [])"
  using assms
  by (simp add: template_off stack_env_def condition_value_def media_acm_certificate_arn_def
      media_acm_certificate_arn_parameter_def)

lemma refs_stack_env: "refs (stack_env R A t) = R"
  by (simp add: stack_env_def)

lemma atts_stack_env: "atts (stack_env R A t) = A"
  by (simp add: stack_env_def)

text \<open>
  The secondary distribution, evaluated: one condition decides both the aliases and
  the viewer certificate.
\<close>

lemma media_distribution_config:
  assumes "conds E ''NoMediaDistributionAlias'' = Some (arn = [])"
    and "refs E ''MediaDistributionAlias'' = Some (VStr alias)"
    and "refs E ''MediaAcmCertificateArn'' = Some (VStr arn)"
    and "atts E ''PrivateAssetsBucket'' ''DomainName'' = Some (VStr dn)"
  shows "distribution_config E (media_distribution X) = Some (VObj
     ((if arn = [] then [] else [(''Aliases'', VList [VStr alias])]) @
      [(''Origins'', VList [VObj
          [(''Id'', VStr ''Assets''),
           (''DomainName'', VStr dn),
           (''S3OriginConfig'', VObj [(''OriginAccessIdentity'', VStr '''')])]]),
       (''DefaultCacheBehavior'', VObj
          [(''TargetOriginId'', VStr ''Assets''),
           (''ForwardedValues'', VObj
              [(''QueryString'', VBool True),
               (''Headers'', VList
                  [VStr ''Origin'',
                   VStr ''Access-Control-Request-Headers'',
                   VStr ''Access-Control-Request-Method''])]),
           (''ViewerProtocolPolicy'', VStr ''allow-all'')]),
       (''Enabled'', VBool True)] @
      (if arn = [] then []
       else [(''ViewerCertificate'', VObj
               [(''AcmCertificateArn'', VStr arn), (''SslSupportMethod'', VStr ''sni-only'')])])))"
  using assms
  by (simp add: distribution_config_def eval_resource_def property_def media_distribution_def
      private_assets_bucket_def no_media_distribution_alias_def no_media_acm_certificate_arn_def
      media_distribution_alias_def media_distribution_alias_parameter_def
      media_acm_certificate_arn_def media_acm_certificate_arn_parameter_def)

text \<open>
  C5. When the certificate ARN is the empty string, the evaluated secondary
  distribution has no \<open>ViewerCertificate\<close> property; otherwise it has exactly one, with
  \<open>SslSupportMethod\<close> \<open>sni-only\<close> and the given ARN as \<open>AcmCertificateArn\<close>.
\<close>

theorem media_viewer_certificate:
  assumes "v \<noteq> Some ''on''"
    and "R ''MediaDistributionAlias'' = Some (VStr alias)"
    and "R ''MediaAcmCertificateArn'' = Some (VStr arn)"
    and "A ''PrivateAssetsBucket'' ''DomainName'' = Some (VStr dn)"
  shows "map_option (property ''ViewerCertificate'')
           (distribution_config (stack_env R A (m_template (assets v X t0))) (media_distribution X)) =
         Some (if arn = [] then None
               else Some (VObj [(''AcmCertificateArn'', VStr arn),
                                (''SslSupportMethod'', VStr ''sni-only'')]))
       \<and> map_option (count_property ''ViewerCertificate'')
           (distribution_config (stack_env R A (m_template (assets v X t0))) (media_distribution X)) =
         Some (if arn = [] then 0 else 1)"
proof -
  let ?E = "stack_env R A (m_template (assets v X t0))"
  have c: "conds ?E ''NoMediaDistributionAlias'' = Some (arn = [])"
    using assms(1,3) by (rule media_condition_value)
  have cfg: "distribution_config ?E (media_distribution X) = Some (VObj
     ((if arn = [] then [] else [(''Aliases'', VList [VStr alias])]) @
      [(''Origins'', VList [VObj
          [(''Id'', VStr ''Assets''),
           (''DomainName'', VStr dn),
           (''S3OriginConfig'', VObj [(''OriginAccessIdentity'', VStr '''')])]]),
       (''DefaultCacheBehavior'', VObj
          [(''TargetOriginId'', VStr ''Assets''),
           (''ForwardedValues'', VObj
              [(''QueryString'', VBool True),
               (''Headers'', VList
                  [VStr ''Origin'',
                   VStr ''Access-Control-Request-Headers'',
                   VStr ''Access-Control-Request-Method''])]),
           (''ViewerProtocolPolicy'', VStr ''allow-all'')]),
       (''Enabled'', VBool True)] @
      (if arn = [] then []
       else [(''ViewerCertificate'', VObj
               [(''AcmCertificateArn'', VStr arn), (''SslSupportMethod'', VStr ''sni-only'')])])))"
    using c assms(2-4) by (intro media_distribution_config) (simp_all add: refs_stack_env atts_stack_env)
  show ?thesis
    by (simp add: cfg property_def count_property_def)
qed

theorem media_viewer_certificate_witness:
  "map_option (property ''ViewerCertificate'')
     (distribution_config
        (stack_env (sample_refs ''media.mydomain.com'' ''arn:aws:acm:us-east-1:111122223333:certificate/c1'')
           sample_atts (m_template (assets None sample_collaborators empty_template)))
        (media_distribution sample_collaborators)) =
     Some (Some (VObj [(''AcmCertificateArn'', VStr ''arn:aws:acm:us-east-1:111122223333:certificate/c1''),
                       (''SslSupportMethod'', VStr ''sni-only'')]))
   \<and> map_option (property ''ViewerCertificate'')
     (distribution_config
        (stack_env (sample_refs ''media.mydomain.com'' [])
           sample_atts (m_template (assets None sample_collaborators empty_template)))
        (media_distribution sample_collaborators)) = Some None"
  using media_viewer_certificate [of None "sample_refs ''media.mydomain.com'' ''arn:aws:acm:us-east-1:111122223333:certificate/c1''"
      "''media.mydomain.com''" "''arn:aws:acm:us-east-1:111122223333:certificate/c1''" sample_atts
      "''PrivateAssetsBucket.s3.amazonaws.com''" sample_collaborators empty_template]
    media_viewer_certificate [of None "sample_refs ''media.mydomain.com'' []"
      "''media.mydomain.com''" "[]" sample_atts
      "''PrivateAssetsBucket.s3.amazonaws.com''" sample_collaborators empty_template]
  by (simp add: sample_refs_def sample_atts_def)

text \<open>
  C4 does not hold of the code. With an empty alias and a certificate ARN, the
  secondary distribution has the property \<open>Aliases\<close>, holding the empty string; with an
  alias and no certificate ARN, it has no \<open>Aliases\<close> at all.
\<close>

theorem media_aliases_follow_certificate:
  "map_option (property ''Aliases'')
     (distribution_config
        (stack_env (sample_refs [] ''arn:aws:acm:us-east-1:111122223333:certificate/c1'')
           sample_atts (m_template (assets None sample_collaborators empty_template)))
        (media_distribution sample_collaborators)) = Some (Some (VList [VStr []]))
   \<and> map_option (property ''Aliases'')
     (distribution_config
        (stack_env (sample_refs ''media.mydomain.com'' [])
           sample_atts (m_template (assets None sample_collaborators empty_template)))
        (media_distribution sample_collaborators)) = Some None"
proof -
  have off: "None \<noteq> Some ''on''" by simp
  have c1: "conds (stack_env (sample_refs [] ''arn:aws:acm:us-east-1:111122223333:certificate/c1'')
           sample_atts (m_template (assets None sample_collaborators empty_template)))
           ''NoMediaDistributionAlias'' =
           Some (''arn:aws:acm:us-east-1:111122223333:certificate/c1'' = [])"
    by (rule media_condition_value [OF off]) (simp add: sample_refs_def)
  have c2: "conds (stack_env (sample_refs ''media.mydomain.com'' [])
           sample_atts (m_template (assets None sample_collaborators empty_template)))
           ''NoMediaDistributionAlias'' = Some ([] = ([] :: string))"
    by (rule media_condition_value [OF off]) (simp add: sample_refs_def)
  show ?thesis
    using media_distribution_config [OF c1, of "[]" "''PrivateAssetsBucket.s3.amazonaws.com''"
        sample_collaborators]
      media_distribution_config [OF c2, of "''media.mydomain.com''"
        "''PrivateAssetsBucket.s3.amazonaws.com''" sample_collaborators]
    by (simp add: refs_stack_env atts_stack_env sample_refs_def sample_atts_def property_def)
qed

end
